theory Spec2Isabelle
  imports Main
begin

section \<open>The BIN pattern\<close>

text \<open>
  \<^verbatim>\<open>Search\<close> starts with
  \<^verbatim>\<open>regexp.MustCompile(`^[1-9]\d{3,15}$`).MatchString(bin)\<close>.
  The pattern is kept as a syntax tree and matched with Brzozowski derivatives. Go strings
  are byte sequences, a \<^typ>\<open>char\<close> is a byte. In Go's syntax \<^verbatim>\<open>\d\<close> is the ASCII class
  \<^verbatim>\<open>[0-9]\<close>, and without the \<^verbatim>\<open>m\<close> flag \<^verbatim>\<open>^\<close> and \<^verbatim>\<open>$\<close> match only at the two ends
  of the text: the anchored pattern matches when the whole text is in its language.
\<close>

datatype regex =
  NoMatch
| EmptyMatch
| CharRange char char
| Concat regex regex
| Alternate regex regex
| Repeat regex nat nat

definition in_range :: "char \<Rightarrow> char \<Rightarrow> char \<Rightarrow> bool" where
  "in_range lo hi c \<longleftrightarrow> (of_char lo :: nat) \<le> of_char c \<and> (of_char c :: nat) \<le> of_char hi"

fun nullable :: "regex \<Rightarrow> bool" where
  "nullable NoMatch = False"
| "nullable EmptyMatch = True"
| "nullable (CharRange lo hi) = False"
| "nullable (Concat r s) = (nullable r \<and> nullable s)"
| "nullable (Alternate r s) = (nullable r \<or> nullable s)"
| "nullable (Repeat r lo hi) = (lo = 0 \<or> (nullable r \<and> lo \<le> hi))"

fun deriv :: "char \<Rightarrow> regex \<Rightarrow> regex" where
  "deriv c NoMatch = NoMatch"
| "deriv c EmptyMatch = NoMatch"
| "deriv c (CharRange lo hi) = (if in_range lo hi c then EmptyMatch else NoMatch)"
| "deriv c (Concat r s) =
     (if nullable r then Alternate (Concat (deriv c r) s) (deriv c s)
      else Concat (deriv c r) s)"
| "deriv c (Alternate r s) = Alternate (deriv c r) (deriv c s)"
| "deriv c (Repeat r lo hi) =
     (if hi = 0 then NoMatch else Concat (deriv c r) (Repeat r (lo - 1) (hi - 1)))"

fun MatchString :: "regex \<Rightarrow> string \<Rightarrow> bool" where
  "MatchString r [] = nullable r"
| "MatchString r (c # cs) = MatchString (deriv c r) cs"

definition bin_regexp :: regex where
  "bin_regexp = Concat (CharRange CHR ''1'' CHR ''9'') (Repeat (CharRange CHR ''0'' CHR ''9'') 3 15)"

text \<open>
  The format in the specification's words: the first character is a digit 1 to 9, it is
  followed by 3 to 15 further digits, and nothing else.
\<close>

definition bin_format :: "string \<Rightarrow> bool" where
  "bin_format s =
     (case s of
        [] \<Rightarrow> False
      | c # cs \<Rightarrow> in_range CHR ''1'' CHR ''9'' c \<and> 3 \<le> length cs \<and> length cs \<le> 15
                 \<and> list_all (in_range CHR ''0'' CHR ''9'') cs)"

section \<open>The decoded record\<close>

text \<open>
  The structs \<^verbatim>\<open>Number\<close>, \<^verbatim>\<open>Country\<close>, \<^verbatim>\<open>Bank\<close> and \<^verbatim>\<open>BIN\<close> of the package, field by
  field. Go's \<^verbatim>\<open>int\<close> is taken as 64 bits wide. The type \<^verbatim>\<open>float64\<close> is the type
  parameter \<open>'f\<close>: its only operations here are its zero value and the conversion of a
  numeric literal, which the environment supplies.
\<close>

record Number =
  Length :: int
  Luhn :: bool

record 'f Country =
  Numeric :: string
  Name :: string
  Emoji :: string
  Currency :: string
  Short :: string
  Lat :: 'f
  Long :: 'f

record Bank =
  Name :: string
  URL :: string
  Phone :: string
  City :: string

record 'f BIN =
  Number :: Number
  Scheme :: string
  Type :: string
  Brand :: string
  Prepaid :: bool
  Country :: "'f Country"
  Bank :: Bank

text \<open>The zero values Go gives to freshly allocated structs.\<close>

definition zero_Number :: Number where
  "zero_Number = \<lparr>Length = 0, Luhn = False\<rparr>"

definition zero_Country :: "('f::zero) Country" where
  "zero_Country =
     \<lparr>Numeric = '''', Country.Name = '''', Emoji = '''', Currency = '''', Short = '''',
      Lat = 0, Long = 0\<rparr>"

definition zero_Bank :: Bank where
  "zero_Bank = \<lparr>Bank.Name = '''', URL = '''', Phone = '''', City = ''''\<rparr>"

definition zero_BIN :: "('f::zero) BIN" where
  "zero_BIN =
     \<lparr>Number = zero_Number, Scheme = '''', Type = '''', Brand = '''', Prepaid = False,
      Country = zero_Country, Bank = zero_Bank\<rparr>"

section \<open>Decoding JSON into the record\<close>

text \<open>
  \<^verbatim>\<open>json.NewDecoder(resp.Body).Decode(&b)\<close> is a call into Go's \<^verbatim>\<open>encoding/json\<close>. It
  works in two steps. The first reads the next JSON value from the stream; it is the
  environment's \<open>readValue\<close> below and yields the value as a tree. The second stores
  that tree into the Go value behind the pointer, driven by the struct declarations
  above; it is modelled here after the rules documented for \<^verbatim>\<open>json.Unmarshal\<close>:
  \<^item> a JSON null stored into a pointer sets it to nil, stored into anything else it
    has no effect and is no error;
  \<^item> a nil pointer that receives any other value is first pointed at a new zero value;
  \<^item> an object member is stored into the struct field whose name (the key of its
    \<^verbatim>\<open>json\<close> tag, else the Go field name) equals the member's key, exactly or under case
    folding; a member that matches no field is skipped;
  \<^item> a value of the wrong JSON type, or a number that does not fit the field, leaves
    the field as it is, and the decoder remembers the first such
    \<^verbatim>\<open>UnmarshalTypeError\<close>, goes on with the rest and returns that error at the end.
\<close>

datatype json =
  JNull
| JBool bool
| JNumber string
| JString string
| JArray "json list"
| JObject "(string \<times> json) list"

datatype 'se json_error =
  ReadError 'se
| UnmarshalTypeError string string

fun json_kind :: "json \<Rightarrow> string" where
  "json_kind JNull = ''null''"
| "json_kind (JBool b) = ''bool''"
| "json_kind (JNumber lit) = ''number''"
| "json_kind (JString s) = ''string''"
| "json_kind (JArray xs) = ''array''"
| "json_kind (JObject kvs) = ''object''"

definition saveError :: "'e \<Rightarrow> 'e option \<Rightarrow> 'e option" where
  "saveError err saved = (case saved of None \<Rightarrow> Some err | Some e \<Rightarrow> Some e)"

text \<open>
  Key folding. The decoder compares folded names: ASCII letters are folded to upper
  case, and the two non-ASCII runes whose case orbit contains an ASCII letter, U+017F
  (bytes C5 BF) and U+212A (bytes E2 84 AA), fold to \<^verbatim>\<open>S\<close> and \<^verbatim>\<open>K\<close>. Every other
  non-ASCII byte is left as it is here; Go folds such runes to other non-ASCII runes,
  which changes no comparison with the ASCII field names of this package.
\<close>

definition upper :: "char \<Rightarrow> char" where
  "upper c = (if in_range CHR ''a'' CHR ''z'' c then char_of (of_char c - (32::nat)) else c)"

fun foldName :: "string \<Rightarrow> string" where
  "foldName (a # b # c # cs) =
     (if a = CHR 0xE2 \<and> b = CHR 0x84 \<and> c = CHR 0xAA then CHR ''K'' # foldName cs
      else if a = CHR 0xC5 \<and> b = CHR 0xBF then CHR ''S'' # foldName (c # cs)
      else upper a # foldName (b # c # cs))"
| "foldName [a, b] =
     (if a = CHR 0xC5 \<and> b = CHR 0xBF then [CHR ''S''] else upper a # foldName [b])"
| "foldName [a] = [upper a]"
| "foldName [] = []"

definition equalFold :: "string \<Rightarrow> string \<Rightarrow> bool" where
  "equalFold key name \<longleftrightarrow> foldName key = foldName name"

text \<open>\<^verbatim>\<open>strconv.ParseInt(s, 10, 64)\<close>: an optional sign, then decimal digits, in range.\<close>

definition digits_val :: "string \<Rightarrow> int" where
  "digits_val ds = foldl (\<lambda>a c. 10 * a + (of_char c - 48)) 0 ds"

definition ParseInt :: "string \<Rightarrow> int option" where
  "ParseInt s =
     (let neg = (take 1 s = ''-'');
          ds = (if take 1 s = ''-'' \<or> take 1 s = ''+'' then drop 1 s else s)
      in if ds = [] \<or> \<not> list_all (in_range CHR ''0'' CHR ''9'') ds then None
         else let n = (if neg then - digits_val ds else digits_val ds)
              in if - (2 ^ 63) \<le> n \<and> n < 2 ^ 63 then Some n else None)"

text \<open>Storing a JSON value into a field of each basic kind.\<close>

fun store_string :: "json \<Rightarrow> string \<times> 'se json_error option \<Rightarrow> string \<times> 'se json_error option" where
  "store_string JNull (x, saved) = (x, saved)"
| "store_string (JString s) (x, saved) = (s, saved)"
| "store_string j (x, saved) = (x, saveError (UnmarshalTypeError (json_kind j) ''string'') saved)"

fun store_bool :: "json \<Rightarrow> bool \<times> 'se json_error option \<Rightarrow> bool \<times> 'se json_error option" where
  "store_bool JNull (x, saved) = (x, saved)"
| "store_bool (JBool b) (x, saved) = (b, saved)"
| "store_bool j (x, saved) = (x, saveError (UnmarshalTypeError (json_kind j) ''bool'') saved)"

fun store_int :: "json \<Rightarrow> int \<times> 'se json_error option \<Rightarrow> int \<times> 'se json_error option" where
  "store_int JNull (x, saved) = (x, saved)"
| "store_int (JNumber lit) (x, saved) =
     (case ParseInt lit of
        Some n \<Rightarrow> (n, saved)
      | None \<Rightarrow> (x, saveError (UnmarshalTypeError (''number '' @ lit) ''int'') saved))"
| "store_int j (x, saved) = (x, saveError (UnmarshalTypeError (json_kind j) ''int'') saved)"

fun store_float64 ::
  "(string \<Rightarrow> 'f option) \<Rightarrow> json \<Rightarrow> 'f \<times> 'se json_error option \<Rightarrow> 'f \<times> 'se json_error option" where
  "store_float64 pf JNull (x, saved) = (x, saved)"
| "store_float64 pf (JNumber lit) (x, saved) =
     (case pf lit of
        Some n \<Rightarrow> (n, saved)
      | None \<Rightarrow> (x, saveError (UnmarshalTypeError (''number '' @ lit) ''float64'') saved))"
| "store_float64 pf j (x, saved) = (x, saveError (UnmarshalTypeError (json_kind j) ''float64'') saved)"

text \<open>
  Storing one object member into a struct: the field is chosen by the member's key. The
  names within each struct differ under folding, so the decoder's preference for an
  exact match never decides between two fields.
\<close>

definition member_Number ::
  "string \<Rightarrow> json \<Rightarrow> Number \<times> 'se json_error option \<Rightarrow> Number \<times> 'se json_error option" where
  "member_Number key v st =
     (case st of (n, saved) \<Rightarrow>
        if equalFold key ''Length'' then
          (case store_int v (Length n, saved) of (x, sv) \<Rightarrow> (n\<lparr>Length := x\<rparr>, sv))
        else if equalFold key ''Luhn'' then
          (case store_bool v (Luhn n, saved) of (x, sv) \<Rightarrow> (n\<lparr>Luhn := x\<rparr>, sv))
        else (n, saved))"

fun object_Number ::
  "(string \<times> json) list \<Rightarrow> Number \<times> 'se json_error option \<Rightarrow> Number \<times> 'se json_error option" where
  "object_Number [] st = st"
| "object_Number ((key, v) # kvs) st = object_Number kvs (member_Number key v st)"

fun store_Number :: "json \<Rightarrow> Number \<times> 'se json_error option \<Rightarrow> Number \<times> 'se json_error option" where
  "store_Number JNull st = st"
| "store_Number (JObject kvs) st = object_Number kvs st"
| "store_Number j (n, saved) =
     (n, saveError (UnmarshalTypeError (json_kind j) ''binlookup.Number'') saved)"

definition member_Country ::
  "(string \<Rightarrow> 'f option) \<Rightarrow> string \<Rightarrow> json \<Rightarrow> 'f Country \<times> 'se json_error option
     \<Rightarrow> 'f Country \<times> 'se json_error option" where
  "member_Country pf key v st =
     (case st of (c, saved) \<Rightarrow>
        if equalFold key ''Numeric'' then
          (case store_string v (Numeric c, saved) of (x, sv) \<Rightarrow> (c\<lparr>Numeric := x\<rparr>, sv))
        else if equalFold key ''Name'' then
          (case store_string v (Country.Name c, saved) of (x, sv) \<Rightarrow> (c\<lparr>Country.Name := x\<rparr>, sv))
        else if equalFold key ''Emoji'' then
          (case store_string v (Emoji c, saved) of (x, sv) \<Rightarrow> (c\<lparr>Emoji := x\<rparr>, sv))
        else if equalFold key ''Currency'' then
          (case store_string v (Currency c, saved) of (x, sv) \<Rightarrow> (c\<lparr>Currency := x\<rparr>, sv))
        else if equalFold key ''alpha2'' then
          (case store_string v (Short c, saved) of (x, sv) \<Rightarrow> (c\<lparr>Short := x\<rparr>, sv))
        else if equalFold key ''latitude'' then
          (case store_float64 pf v (Lat c, saved) of (x, sv) \<Rightarrow> (c\<lparr>Lat := x\<rparr>, sv))
        else if equalFold key ''longitude'' then
          (case store_float64 pf v (Long c, saved) of (x, sv) \<Rightarrow> (c\<lparr>Long := x\<rparr>, sv))
        else (c, saved))"

fun object_Country ::
  "(string \<Rightarrow> 'f option) \<Rightarrow> (string \<times> json) list \<Rightarrow> 'f Country \<times> 'se json_error option
     \<Rightarrow> 'f Country \<times> 'se json_error option" where
  "object_Country pf [] st = st"
| "object_Country pf ((key, v) # kvs) st = object_Country pf kvs (member_Country pf key v st)"

fun store_Country ::
  "(string \<Rightarrow> 'f option) \<Rightarrow> json \<Rightarrow> 'f Country \<times> 'se json_error option
     \<Rightarrow> 'f Country \<times> 'se json_error option" where
  "store_Country pf JNull st = st"
| "store_Country pf (JObject kvs) st = object_Country pf kvs st"
| "store_Country pf j (c, saved) =
     (c, saveError (UnmarshalTypeError (json_kind j) ''binlookup.Country'') saved)"

definition member_Bank ::
  "string \<Rightarrow> json \<Rightarrow> Bank \<times> 'se json_error option \<Rightarrow> Bank \<times> 'se json_error option" where
  "member_Bank key v st =
     (case st of (k, saved) \<Rightarrow>
        if equalFold key ''Name'' then
          (case store_string v (Bank.Name k, saved) of (x, sv) \<Rightarrow> (k\<lparr>Bank.Name := x\<rparr>, sv))
        else if equalFold key ''URL'' then
          (case store_string v (URL k, saved) of (x, sv) \<Rightarrow> (k\<lparr>URL := x\<rparr>, sv))
        else if equalFold key ''Phone'' then
          (case store_string v (Phone k, saved) of (x, sv) \<Rightarrow> (k\<lparr>Phone := x\<rparr>, sv))
        else if equalFold key ''City'' then
          (case store_string v (City k, saved) of (x, sv) \<Rightarrow> (k\<lparr>City := x\<rparr>, sv))
        else (k, saved))"

fun object_Bank ::
  "(string \<times> json) list \<Rightarrow> Bank \<times> 'se json_error option \<Rightarrow> Bank \<times> 'se json_error option" where
  "object_Bank [] st = st"
| "object_Bank ((key, v) # kvs) st = object_Bank kvs (member_Bank key v st)"

fun store_Bank :: "json \<Rightarrow> Bank \<times> 'se json_error option \<Rightarrow> Bank \<times> 'se json_error option" where
  "store_Bank JNull st = st"
| "store_Bank (JObject kvs) st = object_Bank kvs st"
| "store_Bank j (k, saved) =
     (k, saveError (UnmarshalTypeError (json_kind j) ''binlookup.Bank'') saved)"

definition member_BIN ::
  "(string \<Rightarrow> 'f option) \<Rightarrow> string \<Rightarrow> json \<Rightarrow> 'f BIN \<times> 'se json_error option
     \<Rightarrow> 'f BIN \<times> 'se json_error option" where
  "member_BIN pf key v st =
     (case st of (b, saved) \<Rightarrow>
        if equalFold key ''Number'' then
          (case store_Number v (Number b, saved) of (x, sv) \<Rightarrow> (b\<lparr>Number := x\<rparr>, sv))
        else if equalFold key ''Scheme'' then
          (case store_string v (Scheme b, saved) of (x, sv) \<Rightarrow> (b\<lparr>Scheme := x\<rparr>, sv))
        else if equalFold key ''Type'' then
          (case store_string v (Type b, saved) of (x, sv) \<Rightarrow> (b\<lparr>Type := x\<rparr>, sv))
        else if equalFold key ''Brand'' then
          (case store_string v (Brand b, saved) of (x, sv) \<Rightarrow> (b\<lparr>Brand := x\<rparr>, sv))
        else if equalFold key ''Prepaid'' then
          (case store_bool v (Prepaid b, saved) of (x, sv) \<Rightarrow> (b\<lparr>Prepaid := x\<rparr>, sv))
        else if equalFold key ''Country'' then
          (case store_Country pf v (Country b, saved) of (x, sv) \<Rightarrow> (b\<lparr>Country := x\<rparr>, sv))
        else if equalFold key ''Bank'' then
          (case store_Bank v (Bank b, saved) of (x, sv) \<Rightarrow> (b\<lparr>Bank := x\<rparr>, sv))
        else (b, saved))"

fun object_BIN ::
  "(string \<Rightarrow> 'f option) \<Rightarrow> (string \<times> json) list \<Rightarrow> 'f BIN \<times> 'se json_error option
     \<Rightarrow> 'f BIN \<times> 'se json_error option" where
  "object_BIN pf [] st = st"
| "object_BIN pf ((key, v) # kvs) st = object_BIN pf kvs (member_BIN pf key v st)"

text \<open>
  Storing the value behind \<^verbatim>\<open>&b\<close>, where \<^verbatim>\<open>b\<close> is a \<^verbatim>\<open>*BIN\<close>: \<open>None\<close> is the nil
  pointer.
\<close>

definition alloc_BIN :: "('f::zero) BIN option \<Rightarrow> 'f BIN" where
  "alloc_BIN b = (case b of None \<Rightarrow> zero_BIN | Some x \<Rightarrow> x)"

fun unmarshal_BIN ::
  "(string \<Rightarrow> 'f option) \<Rightarrow> json \<Rightarrow> ('f::zero) BIN option \<Rightarrow> 'f BIN option \<times> 'se json_error option" where
  "unmarshal_BIN pf JNull b = (None, None)"
| "unmarshal_BIN pf (JObject kvs) b =
     (case object_BIN pf kvs (alloc_BIN b, None) of (x, saved) \<Rightarrow> (Some x, saved))"
| "unmarshal_BIN pf j b =
     (Some (alloc_BIN b), Some (UnmarshalTypeError (json_kind j) ''binlookup.BIN''))"

section \<open>Error values\<close>

text \<open>
  The errors \<^verbatim>\<open>Search\<close> returns are built with \<^verbatim>\<open>github.com/pkg/errors\<close>:
  \<^verbatim>\<open>errors.New\<close> gives a \<^verbatim>\<open>fundamental\<close> error holding the message,
  \<^verbatim>\<open>errors.WithMessage\<close> puts a \<^verbatim>\<open>withMessage\<close> around its cause, and \<^verbatim>\<open>errors.Wrap\<close> puts
  a \<^verbatim>\<open>withStack\<close> around that. The recorded call stacks are left out. The leaves are
  the package's own \<^verbatim>\<open>StatusCodeError\<close>, the error of \<^verbatim>\<open>Client.Get\<close> (of the abstract
  type \<open>'te\<close>; in Go always a \<^verbatim>\<open>*url.Error\<close>) and the error of the JSON decoder. The
  last two come from the standard library and have no \<^verbatim>\<open>Cause\<close> method, so
  \<^verbatim>\<open>errors.Cause\<close> stops at them.
\<close>

datatype ('te, 'se) error =
  fundamental string
| StatusCodeError int
| GetError 'te
| DecodeError "'se json_error"
| withMessage "('te, 'se) error" string
| withStack "('te, 'se) error"

definition errors_New :: "string \<Rightarrow> ('te, 'se) error" where
  "errors_New message = fundamental message"

definition errors_WithMessage :: "('te, 'se) error \<Rightarrow> string \<Rightarrow> ('te, 'se) error" where
  "errors_WithMessage err message = withMessage err message"

definition errors_Wrap :: "('te, 'se) error \<Rightarrow> string \<Rightarrow> ('te, 'se) error" where
  "errors_Wrap err message = withStack (withMessage err message)"

text \<open>\<^verbatim>\<open>errors.Cause\<close> unwraps every layer that has a cause.\<close>

fun Cause :: "('te, 'se) error \<Rightarrow> ('te, 'se) error" where
  "Cause (withMessage err message) = Cause err"
| "Cause (withStack err) = Cause err"
| "Cause err = err"

text \<open>\<^verbatim>\<open>fmt.Sprintf("%d", i)\<close> for an \<^verbatim>\<open>int\<close>.\<close>

fun decimal :: "nat \<Rightarrow> string" where
  "decimal n =
     (if n < 10 then [char_of (48 + n)] else decimal (n div 10) @ [char_of (48 + n mod 10)])"

declare decimal.simps [simp del]

definition Sprintf_d :: "int \<Rightarrow> string" where
  "Sprintf_d i = (if i < 0 then CHR ''-'' # decimal (nat (- i)) else decimal (nat i))"

text \<open>
  The method \<^verbatim>\<open>StatusCodeError.Error\<close>; \<^verbatim>\<open>http.StatusText\<close> is the table of the standard
  library, taken as the parameter \<open>statusText\<close>.
\<close>

definition StatusCodeError_Error :: "(int \<Rightarrow> string) \<Rightarrow> int \<Rightarrow> string" where
  "StatusCodeError_Error statusText s = Sprintf_d s @ '' '' @ statusText s"

section \<open>The environment and the state\<close>

text \<open>
  \<^verbatim>\<open>Client\<close> is a package variable holding an \<^verbatim>\<open>http.Client\<close>; of its fields the
  transport and the timeout are kept (\<open>None\<close> is the nil transport, which stands for
  the default one). A \<^verbatim>\<open>time.Duration\<close> counts nanoseconds.
\<close>

type_synonym Duration = int

definition Second :: Duration where
  "Second = 1000000000"

record 'tr http_Client =
  Transport :: "'tr option"
  Timeout :: Duration

record http_Response =
  StatusCode :: int
  Body :: string

text \<open>
  What \<^verbatim>\<open>Search\<close> does to the outside is recorded as a list of calls: each call of the
  client's \<^verbatim>\<open>Get\<close> with its receiver and its URL, and each \<^verbatim>\<open>Close\<close> of a response body.
\<close>

datatype 'tr call =
  is_Get: Get "'tr http_Client" string
| Close http_Response

text \<open>
  The state: the package variable \<^verbatim>\<open>Client\<close>, the calls made so far, and the state
  \<open>'w\<close> of everything beyond the program (the network and the upstream service).
\<close>

record ('tr, 'w) state =
  Client :: "'tr http_Client"
  calls :: "'tr call list"
  world :: 'w

definition default_Client :: "'tr http_Client" where
  "default_Client = \<lparr>Transport = None, Timeout = 10 * Second\<rparr>"

definition init_state :: "'w \<Rightarrow> ('tr, 'w) state" where
  "init_state w = \<lparr>Client = default_Client, calls = [], world = w\<rparr>"

text \<open>
  The library functions \<^verbatim>\<open>Search\<close> calls and whose code is outside the package:
  \<^item> \<open>Client_Get c url w\<close>: \<^verbatim>\<open>c.Get(url)\<close> in the world \<open>w\<close>, which returns an error or a
    response and leaves a new world; the body of the response is the bytes the decoder
    will read;
  \<^item> \<open>StatusText\<close>: \<^verbatim>\<open>http.StatusText\<close>;
  \<^item> \<open>readValue\<close>: the decoder's reading of the next JSON value from the body, or the
    error that stops it (a syntax error, an early end of the input);
  \<^item> \<open>ParseFloat\<close>: \<^verbatim>\<open>strconv.ParseFloat(lit, 64)\<close>, \<open>None\<close> when it reports an error.
\<close>

record ('tr, 'te, 'se, 'f, 'w) env =
  Client_Get :: "'tr http_Client \<Rightarrow> string \<Rightarrow> 'w \<Rightarrow> ('te + http_Response) \<times> 'w"
  StatusText :: "int \<Rightarrow> string"
  readValue :: "string \<Rightarrow> 'se + json"
  ParseFloat :: "string \<Rightarrow> 'f option"
  GetError_Error :: "'te \<Rightarrow> string"
  DecodeError_Error :: "'se json_error \<Rightarrow> string"

text \<open>The method \<^verbatim>\<open>Error\<close> of each error value.\<close>

fun Error :: "('tr, 'te, 'se, 'f, 'w) env \<Rightarrow> ('te, 'se) error \<Rightarrow> string" where
  "Error env (fundamental message) = message"
| "Error env (StatusCodeError s) = StatusCodeError_Error (StatusText env) s"
| "Error env (GetError e) = GetError_Error env e"
| "Error env (DecodeError e) = DecodeError_Error env e"
| "Error env (withMessage err message) = message @ '': '' @ Error env err"
| "Error env (withStack err) = Error env err"

text \<open>\<^verbatim>\<open>Decoder.Decode(&b)\<close>: an error while reading the value leaves \<^verbatim>\<open>b\<close> alone.\<close>

definition Decode ::
  "('tr, 'te, 'se, 'f::zero, 'w) env \<Rightarrow> string \<Rightarrow> 'f BIN option \<Rightarrow> 'f BIN option \<times> 'se json_error option" where
  "Decode env body b =
     (case readValue env body of
        Inl e \<Rightarrow> (b, Some (ReadError e))
      | Inr j \<Rightarrow> unmarshal_BIN (ParseFloat env) j b)"

section \<open>Search\<close>

text \<open>
  \<^verbatim>\<open>Search\<close>, statement by statement. The result is the pair of the named results
  \<^verbatim>\<open>b\<close> and \<^verbatim>\<open>err\<close> (\<open>None\<close> for nil) and the state it leaves. The deferred
  \<^verbatim>\<open>resp.Body.Close()\<close> runs on every return after the response was obtained, so its call
  is recorded there once for all of them.
\<close>

definition validation_message :: string where
  "validation_message =
     ''BIN must be fully numerical, first digit must be in range of 1-9, and the next digits must be 3-15 characters long.''"

definition lookup_url :: "string \<Rightarrow> string" where
  "lookup_url bin = ''https://lookup.binlist.net/'' @ bin"

definition StatusOK :: int where
  "StatusOK = 200"

definition Search ::
  "('tr, 'te, 'se, 'f::zero, 'w) env \<Rightarrow> string \<Rightarrow> ('tr, 'w) state
     \<Rightarrow> ('f BIN option \<times> ('te, 'se) error option) \<times> ('tr, 'w) state" where
  "Search env bin st =
     (let ok = MatchString bin_regexp bin in
      if \<not> ok then ((None, Some (errors_New validation_message)), st)
      else
        (case Client_Get env (Client st) (lookup_url bin) (world st) of
           (got, w) \<Rightarrow>
             let st1 = st\<lparr>calls := calls st @ [Get (Client st) (lookup_url bin)], world := w\<rparr> in
             (case got of
                Inl e \<Rightarrow> ((None, Some (GetError e)), st1)
              | Inr resp \<Rightarrow>
                  let st2 = st1\<lparr>calls := calls st1 @ [Close resp]\<rparr> in
                  if StatusCode resp \<noteq> StatusOK then
                    ((None, Some (errors_Wrap (StatusCodeError (StatusCode resp))
                                    ''Failed Due to Status Code Error'')), st2)
                  else
                    (case Decode env (Body resp) None of
                       (b, Some e) \<Rightarrow>
                         ((b, Some (errors_WithMessage (DecodeError e) ''JSON Unmarshaling Failed'')), st2)
                     | (b, None) \<Rightarrow> ((b, None), st2)))))"

section \<open>The specification's notions\<close>

text \<open>
  The four kinds of failure of the specification, and how a caller tells them from the
  error value: by the type of its cause.
\<close>

datatype failure =
  ValidationFailure
| TransportFailure
| StatusFailure int
| DecodeFailure

fun failure_of :: "('te, 'se) error \<Rightarrow> failure option" where
  "failure_of err =
     (case Cause err of
        fundamental message \<Rightarrow> Some ValidationFailure
      | GetError e \<Rightarrow> Some TransportFailure
      | StatusCodeError s \<Rightarrow> Some (StatusFailure s)
      | DecodeError e \<Rightarrow> Some DecodeFailure
      | _ \<Rightarrow> None)"

text \<open>
  What happens to a call, told from its input and its environment alone: the kind of
  failure, or \<open>None\<close> for success.
\<close>

definition outcome ::
  "('tr, 'te, 'se, 'f::zero, 'w) env \<Rightarrow> string \<Rightarrow> ('tr, 'w) state \<Rightarrow> failure option" where
  "outcome env bin st =
     (if \<not> bin_format bin then Some ValidationFailure
      else
        (case fst (Client_Get env (Client st) (lookup_url bin) (world st)) of
           Inl e \<Rightarrow> Some TransportFailure
         | Inr resp \<Rightarrow>
             if StatusCode resp \<noteq> 200 then Some (StatusFailure (StatusCode resp))
             else if snd (Decode env (Body resp) None) \<noteq> None then Some DecodeFailure
             else None))"

text \<open>
  The direct mapping of a JSON object to the record, member by member. \<open>fill_BIN\<close>
  overwrites a record: a field becomes the value of the member of its name when that has
  the field's JSON type, and stays as it is when the member is absent or null. The direct
  mapping \<open>direct_BIN\<close> fills the zero record, so that absent and null members give zero
  values.
\<close>

fun member_of :: "string \<Rightarrow> (string \<times> json) list \<Rightarrow> json option" where
  "member_of name [] = None"
| "member_of name ((key, v) # kvs) = (if equalFold key name then Some v else member_of name kvs)"

definition string_or :: "string \<Rightarrow> json option \<Rightarrow> string" where
  "string_or d m = (case m of Some (JString s) \<Rightarrow> s | _ \<Rightarrow> d)"

definition bool_or :: "bool \<Rightarrow> json option \<Rightarrow> bool" where
  "bool_or d m = (case m of Some (JBool b) \<Rightarrow> b | _ \<Rightarrow> d)"

definition int_or :: "int \<Rightarrow> json option \<Rightarrow> int" where
  "int_or d m =
     (case m of Some (JNumber lit) \<Rightarrow> (case ParseInt lit of Some n \<Rightarrow> n | None \<Rightarrow> d) | _ \<Rightarrow> d)"

definition float64_or :: "(string \<Rightarrow> 'f option) \<Rightarrow> 'f \<Rightarrow> json option \<Rightarrow> 'f" where
  "float64_or pf d m =
     (case m of Some (JNumber lit) \<Rightarrow> (case pf lit of Some n \<Rightarrow> n | None \<Rightarrow> d) | _ \<Rightarrow> d)"

definition members :: "json option \<Rightarrow> (string \<times> json) list" where
  "members m = (case m of Some (JObject kvs) \<Rightarrow> kvs | _ \<Rightarrow> [])"

definition fill_Number :: "Number \<Rightarrow> (string \<times> json) list \<Rightarrow> Number" where
  "fill_Number n kvs =
     \<lparr>Length = int_or (Length n) (member_of ''Length'' kvs),
      Luhn = bool_or (Luhn n) (member_of ''Luhn'' kvs)\<rparr>"

definition fill_Country ::
  "(string \<Rightarrow> 'f option) \<Rightarrow> 'f Country \<Rightarrow> (string \<times> json) list \<Rightarrow> 'f Country" where
  "fill_Country pf c kvs =
     \<lparr>Numeric = string_or (Numeric c) (member_of ''Numeric'' kvs),
      Country.Name = string_or (Country.Name c) (member_of ''Name'' kvs),
      Emoji = string_or (Emoji c) (member_of ''Emoji'' kvs),
      Currency = string_or (Currency c) (member_of ''Currency'' kvs),
      Short = string_or (Short c) (member_of ''alpha2'' kvs),
      Lat = float64_or pf (Lat c) (member_of ''latitude'' kvs),
      Long = float64_or pf (Long c) (member_of ''longitude'' kvs)\<rparr>"

definition fill_Bank :: "Bank \<Rightarrow> (string \<times> json) list \<Rightarrow> Bank" where
  "fill_Bank k kvs =
     \<lparr>Bank.Name = string_or (Bank.Name k) (member_of ''Name'' kvs),
      URL = string_or (URL k) (member_of ''URL'' kvs),
      Phone = string_or (Phone k) (member_of ''Phone'' kvs),
      City = string_or (City k) (member_of ''City'' kvs)\<rparr>"

definition fill_BIN ::
  "(string \<Rightarrow> 'f option) \<Rightarrow> 'f BIN \<Rightarrow> (string \<times> json) list \<Rightarrow> 'f BIN" where
  "fill_BIN pf b kvs =
     \<lparr>Number = fill_Number (Number b) (members (member_of ''Number'' kvs)),
      Scheme = string_or (Scheme b) (member_of ''Scheme'' kvs),
      Type = string_or (Type b) (member_of ''Type'' kvs),
      Brand = string_or (Brand b) (member_of ''Brand'' kvs),
      Prepaid = bool_or (Prepaid b) (member_of ''Prepaid'' kvs),
      Country = fill_Country pf (Country b) (members (member_of ''Country'' kvs)),
      Bank = fill_Bank (Bank b) (members (member_of ''Bank'' kvs))\<rparr>"

definition direct_BIN :: "(string \<Rightarrow> 'f option) \<Rightarrow> (string \<times> json) list \<Rightarrow> ('f::zero) BIN" where
  "direct_BIN pf kvs = fill_BIN pf zero_BIN kvs"

text \<open>
  The expected shape of a payload: an object in which no two members have the same name
  under folding, and in which the member named like a field, when it is there and not
  null, has the JSON type of the field: a string, a boolean, a number whose literal the
  field's type can hold, or an object of the expected shape in turn.
\<close>

definition unique_names :: "(string \<times> json) list \<Rightarrow> bool" where
  "unique_names kvs = distinct (map (\<lambda>kv. foldName (fst kv)) kvs)"

definition typed_string :: "json option \<Rightarrow> bool" where
  "typed_string m = (case m of None \<Rightarrow> True | Some JNull \<Rightarrow> True | Some (JString s) \<Rightarrow> True | _ \<Rightarrow> False)"

definition typed_bool :: "json option \<Rightarrow> bool" where
  "typed_bool m = (case m of None \<Rightarrow> True | Some JNull \<Rightarrow> True | Some (JBool b) \<Rightarrow> True | _ \<Rightarrow> False)"

definition typed_int :: "json option \<Rightarrow> bool" where
  "typed_int m =
     (case m of None \<Rightarrow> True | Some JNull \<Rightarrow> True | Some (JNumber lit) \<Rightarrow> ParseInt lit \<noteq> None
      | _ \<Rightarrow> False)"

definition typed_float64 :: "(string \<Rightarrow> 'f option) \<Rightarrow> json option \<Rightarrow> bool" where
  "typed_float64 pf m =
     (case m of None \<Rightarrow> True | Some JNull \<Rightarrow> True | Some (JNumber lit) \<Rightarrow> pf lit \<noteq> None
      | _ \<Rightarrow> False)"

definition typed_object :: "json option \<Rightarrow> bool" where
  "typed_object m = (case m of None \<Rightarrow> True | Some JNull \<Rightarrow> True | Some (JObject kvs) \<Rightarrow> True | _ \<Rightarrow> False)"

definition expected_Number :: "(string \<times> json) list \<Rightarrow> bool" where
  "expected_Number kvs \<longleftrightarrow>
     unique_names kvs \<and> typed_int (member_of ''Length'' kvs) \<and> typed_bool (member_of ''Luhn'' kvs)"

definition expected_Country :: "(string \<Rightarrow> 'f option) \<Rightarrow> (string \<times> json) list \<Rightarrow> bool" where
  "expected_Country pf kvs \<longleftrightarrow>
     unique_names kvs \<and> typed_string (member_of ''Numeric'' kvs)
     \<and> typed_string (member_of ''Name'' kvs) \<and> typed_string (member_of ''Emoji'' kvs)
     \<and> typed_string (member_of ''Currency'' kvs) \<and> typed_string (member_of ''alpha2'' kvs)
     \<and> typed_float64 pf (member_of ''latitude'' kvs)
     \<and> typed_float64 pf (member_of ''longitude'' kvs)"

definition expected_Bank :: "(string \<times> json) list \<Rightarrow> bool" where
  "expected_Bank kvs \<longleftrightarrow>
     unique_names kvs \<and> typed_string (member_of ''Name'' kvs) \<and> typed_string (member_of ''URL'' kvs)
     \<and> typed_string (member_of ''Phone'' kvs) \<and> typed_string (member_of ''City'' kvs)"

definition expected_BIN :: "(string \<Rightarrow> 'f option) \<Rightarrow> (string \<times> json) list \<Rightarrow> bool" where
  "expected_BIN pf kvs \<longleftrightarrow>
     unique_names kvs
     \<and> typed_object (member_of ''Number'' kvs) \<and> expected_Number (members (member_of ''Number'' kvs))
     \<and> typed_string (member_of ''Scheme'' kvs) \<and> typed_string (member_of ''Type'' kvs)
     \<and> typed_string (member_of ''Brand'' kvs) \<and> typed_bool (member_of ''Prepaid'' kvs)
     \<and> typed_object (member_of ''Country'' kvs)
     \<and> expected_Country pf (members (member_of ''Country'' kvs))
     \<and> typed_object (member_of ''Bank'' kvs) \<and> expected_Bank (members (member_of ''Bank'' kvs))"

section \<open>A mocked upstream\<close>

text \<open>
  An upstream to run \<^verbatim>\<open>Search\<close> against. Its world is the number of requests it has
  served. It throttles, as the package's test expects of the real one: the first
  request for the BIN \<^verbatim>\<open>5288230\<close> is answered with 429, the later ones with 200 and a
  payload. It answers 200 with the body \<^verbatim>\<open>null\<close> for \<^verbatim>\<open>4571\<close> and 200 with a body
  that is not JSON for \<^verbatim>\<open>4000\<close>, the connection fails for \<^verbatim>\<open>9999\<close>, and everything else
  is unknown to it (404). Its coordinates are whole numbers, so \<^typ>\<open>int\<close> serves as its
  \<^verbatim>\<open>float64\<close>.
\<close>

definition mock_body :: string where
  \<open>mock_body =
     ''{"number":{"length":16,"luhn":true},"scheme":"visa","type":"debit","prepaid":false,"country":{"numeric":"208","alpha2":"DK","name":"Denmark","currency":"DKK","latitude":56,"longitude":10},"bank":{"name":"Jyske Bank","url":"www.jyskebank.dk","phone":"+4589893300","city":null}}''\<close>

definition mock_members :: "(string \<times> json) list" where
  "mock_members =
     [(''number'', JObject [(''length'', JNumber ''16''), (''luhn'', JBool True)]),
      (''scheme'', JString ''visa''), (''type'', JString ''debit''), (''prepaid'', JBool False),
      (''country'',
         JObject [(''numeric'', JString ''208''), (''alpha2'', JString ''DK''),
                  (''name'', JString ''Denmark''), (''currency'', JString ''DKK''),
                  (''latitude'', JNumber ''56''), (''longitude'', JNumber ''10'')]),
      (''bank'',
         JObject [(''name'', JString ''Jyske Bank''), (''url'', JString ''www.jyskebank.dk''),
                  (''phone'', JString ''+4589893300''), (''city'', JNull)])]"

definition mock_BIN :: "int BIN" where
  "mock_BIN =
     \<lparr>Number = \<lparr>Length = 16, Luhn = True\<rparr>,
      Scheme = ''visa'', Type = ''debit'', Brand = '''', Prepaid = False,
      Country = \<lparr>Numeric = ''208'', Country.Name = ''Denmark'', Emoji = '''', Currency = ''DKK'',
                 Short = ''DK'', Lat = 56, Long = 10\<rparr>,
      Bank = \<lparr>Bank.Name = ''Jyske Bank'', URL = ''www.jyskebank.dk'', Phone = ''+4589893300'',
              City = ''''\<rparr>\<rparr>"

definition mock_Get :: "unit http_Client \<Rightarrow> string \<Rightarrow> nat \<Rightarrow> (unit + http_Response) \<times> nat" where
  "mock_Get c url w =
     (if url = lookup_url ''9999'' then (Inl (), w)
      else if url = lookup_url ''5288230'' then
        (if w = 0 then (Inr \<lparr>StatusCode = 429, Body = ''''\<rparr>, w + 1)
         else (Inr \<lparr>StatusCode = 200, Body = mock_body\<rparr>, w + 1))
      else if url = lookup_url ''4571'' then (Inr \<lparr>StatusCode = 200, Body = ''null''\<rparr>, w + 1)
      else if url = lookup_url ''4000'' then (Inr \<lparr>StatusCode = 200, Body = ''<html>''\<rparr>, w + 1)
      else (Inr \<lparr>StatusCode = 404, Body = ''''\<rparr>, w + 1))"

definition mock_StatusText :: "int \<Rightarrow> string" where
  "mock_StatusText s =
     (if s = 200 then ''OK'' else if s = 404 then ''Not Found''
      else if s = 429 then ''Too Many Requests'' else '''')"

definition mock_readValue :: "string \<Rightarrow> unit + json" where
  "mock_readValue body =
     (if body = mock_body then Inr (JObject mock_members)
      else if body = ''null'' then Inr JNull
      else Inl ())"

definition mock_env :: "(unit, unit, unit, int, nat) env" where
  "mock_env =
     \<lparr>Client_Get = mock_Get, StatusText = mock_StatusText, readValue = mock_readValue,
      ParseFloat = ParseInt, GetError_Error = (\<lambda>e. ''connection refused''),
      DecodeError_Error = (\<lambda>e. ''invalid character'')\<rparr>"

section \<open>Properties of the matcher\<close>

lemma MatchString_NoMatch: "\<not> MatchString NoMatch s"
  by (induction s) simp_all

lemma MatchString_Alternate:
  "MatchString (Alternate r s) w \<longleftrightarrow> MatchString r w \<or> MatchString s w"
  by (induction w arbitrary: r s) simp_all

lemma MatchString_Concat_NoMatch: "\<not> MatchString (Concat NoMatch r) w"
  by (induction w) simp_all

lemma MatchString_Concat_EmptyMatch:
  "MatchString (Concat EmptyMatch r) w \<longleftrightarrow> MatchString r w"
  by (cases w) (simp_all add: MatchString_Alternate MatchString_Concat_NoMatch)

lemma MatchString_Repeat_CharRange:
  "MatchString (Repeat (CharRange a b) lo hi) w \<longleftrightarrow>
     lo \<le> length w \<and> length w \<le> hi \<and> list_all (in_range a b) w"
proof (induction w arbitrary: lo hi)
  case Nil
  then show ?case by simp
next
  case (Cons c cs)
  show ?case
  proof (cases "hi = 0")
    case True
    then show ?thesis by (simp add: MatchString_NoMatch)
  next
    case False
    then show ?thesis
      using Cons.IH [of "lo - 1" "hi - 1"]
      by (auto simp add: MatchString_Concat_EmptyMatch MatchString_Concat_NoMatch)
  qed
qed

lemma MatchString_bin_regexp: "MatchString bin_regexp s \<longleftrightarrow> bin_format s"
proof (cases s)
  case Nil
  then show ?thesis by (simp add: bin_regexp_def bin_format_def)
next
  case (Cons c cs)
  then show ?thesis
    by (simp add: bin_regexp_def bin_format_def MatchString_Concat_EmptyMatch
        MatchString_Concat_NoMatch MatchString_Repeat_CharRange)
qed

section \<open>The paths through Search\<close>

lemma Search_invalid:
  "\<not> bin_format s \<Longrightarrow> Search env s st = ((None, Some (fundamental validation_message)), st)"
  by (simp add: Search_def MatchString_bin_regexp errors_New_def)

lemma Search_Get_failed:
  assumes "bin_format bin"
    and "Client_Get env (Client st) (lookup_url bin) (world st) = (Inl e, w)"
  shows "Search env bin st =
     ((None, Some (GetError e)),
      st\<lparr>calls := calls st @ [Get (Client st) (lookup_url bin)], world := w\<rparr>)"
  using assms by (simp add: Search_def MatchString_bin_regexp)

lemma Search_not_OK:
  assumes "bin_format bin"
    and "Client_Get env (Client st) (lookup_url bin) (world st) = (Inr resp, w)"
    and "StatusCode resp \<noteq> 200"
  shows "Search env bin st =
     ((None, Some (withStack (withMessage (StatusCodeError (StatusCode resp))
                     ''Failed Due to Status Code Error''))),
      st\<lparr>calls := calls st @ [Get (Client st) (lookup_url bin), Close resp], world := w\<rparr>)"
  using assms by (simp add: Search_def MatchString_bin_regexp errors_Wrap_def StatusOK_def)

lemma Search_OK:
  assumes "bin_format bin"
    and "Client_Get env (Client st) (lookup_url bin) (world st) = (Inr resp, w)"
    and "StatusCode resp = 200"
  shows "Search env bin st =
     ((fst (Decode env (Body resp) None),
       map_option (\<lambda>e. withMessage (DecodeError e) ''JSON Unmarshaling Failed'')
         (snd (Decode env (Body resp) None))),
      st\<lparr>calls := calls st @ [Get (Client st) (lookup_url bin), Close resp], world := w\<rparr>)"
  using assms
  by (simp add: Search_def MatchString_bin_regexp errors_WithMessage_def StatusOK_def Let_def
      split: prod.split option.split)

text \<open>
  The result of a call, as a function of what \<^verbatim>\<open>Client.Get\<close> returned: the state
  matters to the result through that alone.
\<close>

lemma Search_result:
  "fst (Search env bin st) =
     (if \<not> bin_format bin then (None, Some (fundamental validation_message))
      else
        (case fst (Client_Get env (Client st) (lookup_url bin) (world st)) of
           Inl e \<Rightarrow> (None, Some (GetError e))
         | Inr resp \<Rightarrow>
             if StatusCode resp \<noteq> 200 then
               (None, Some (withStack (withMessage (StatusCodeError (StatusCode resp))
                              ''Failed Due to Status Code Error'')))
             else
               (fst (Decode env (Body resp) None),
                map_option (\<lambda>e. withMessage (DecodeError e) ''JSON Unmarshaling Failed'')
                  (snd (Decode env (Body resp) None)))))"
proof (cases "bin_format bin")
  case False
  then show ?thesis by (simp add: Search_invalid)
next
  case True
  obtain got w where g: "Client_Get env (Client st) (lookup_url bin) (world st) = (got, w)"
    by (cases "Client_Get env (Client st) (lookup_url bin) (world st)")
  show ?thesis
  proof (cases got)
    case (Inl e)
    then show ?thesis using True g by (simp add: Search_Get_failed)
  next
    case (Inr resp)
    then show ?thesis
      using True g Search_not_OK [of bin env st resp w] Search_OK [of bin env st resp w]
      by (cases "StatusCode resp = 200") simp_all
  qed
qed

lemma Search_calls:
  assumes "bin_format bin"
  shows "calls (snd (Search env bin st)) =
     calls st @
     (case fst (Client_Get env (Client st) (lookup_url bin) (world st)) of
        Inl e \<Rightarrow> [Get (Client st) (lookup_url bin)]
      | Inr resp \<Rightarrow> [Get (Client st) (lookup_url bin), Close resp])"
proof -
  obtain got w where g: "Client_Get env (Client st) (lookup_url bin) (world st) = (got, w)"
    by (cases "Client_Get env (Client st) (lookup_url bin) (world st)")
  show ?thesis
  proof (cases got)
    case (Inl e)
    then show ?thesis using assms g by (simp add: Search_Get_failed)
  next
    case (Inr resp)
    then show ?thesis
      using assms g Search_not_OK [of bin env st resp w] Search_OK [of bin env st resp w]
      by (cases "StatusCode resp = 200") simp_all
  qed
qed

lemma Search_Client: "Client (snd (Search env bin st)) = Client st"
proof (cases "bin_format bin")
  case False
  then show ?thesis by (simp add: Search_invalid)
next
  case True
  obtain got w where g: "Client_Get env (Client st) (lookup_url bin) (world st) = (got, w)"
    by (cases "Client_Get env (Client st) (lookup_url bin) (world st)")
  show ?thesis
  proof (cases got)
    case (Inl e)
    then show ?thesis using True g by (simp add: Search_Get_failed)
  next
    case (Inr resp)
    then show ?thesis
      using True g Search_not_OK [of bin env st resp w] Search_OK [of bin env st resp w]
      by (cases "StatusCode resp = 200") simp_all
  qed
qed

section \<open>Decoding a payload of the expected shape\<close>

lemma char_of_literal:
  "char_of (n::nat) = c \<longleftrightarrow> n mod 256 = of_char c"
  "c = char_of (n::nat) \<longleftrightarrow> n mod 256 = of_char c"
  using char_of_eq_iff [of n c] by (auto simp add: take_bit_eq_mod)

lemma folded_names:
  "foldName ''Number'' = ''NUMBER''" "foldName ''Scheme'' = ''SCHEME''"
  "foldName ''Type'' = ''TYPE''" "foldName ''Brand'' = ''BRAND''"
  "foldName ''Prepaid'' = ''PREPAID''" "foldName ''Country'' = ''COUNTRY''"
  "foldName ''Bank'' = ''BANK''" "foldName ''Length'' = ''LENGTH''"
  "foldName ''Luhn'' = ''LUHN''" "foldName ''Numeric'' = ''NUMERIC''"
  "foldName ''Name'' = ''NAME''" "foldName ''Emoji'' = ''EMOJI''"
  "foldName ''Currency'' = ''CURRENCY''" "foldName ''alpha2'' = ''ALPHA2''"
  "foldName ''latitude'' = ''LATITUDE''" "foldName ''longitude'' = ''LONGITUDE''"
  "foldName ''URL'' = ''URL''" "foldName ''Phone'' = ''PHONE''"
  "foldName ''City'' = ''CITY''"
  by (simp_all add: upper_def in_range_def char_of_literal)

lemma unique_names_Cons:
  "unique_names ((key, v) # kvs) \<Longrightarrow> unique_names kvs"
  by (simp add: unique_names_def)

lemma member_of_None_iff:
  "member_of name kvs = None \<longleftrightarrow> foldName name \<notin> set (map (\<lambda>kv. foldName (fst kv)) kvs)"
proof (induction kvs)
  case Nil
  then show ?case by simp
next
  case (Cons kv kvs)
  then show ?case by (cases kv) (auto simp add: equalFold_def)
qed

lemma member_of_unique:
  "unique_names ((key, v) # kvs) \<Longrightarrow> equalFold key name \<Longrightarrow> member_of name kvs = None"
  by (simp add: member_of_None_iff unique_names_def equalFold_def)

lemma fst_store_string: "fst (store_string v (x, saved)) = string_or x (Some v)"
  by (cases v) (simp_all add: string_or_def)

lemma fst_store_bool: "fst (store_bool v (x, saved)) = bool_or x (Some v)"
  by (cases v) (simp_all add: bool_or_def)

lemma fst_store_int: "fst (store_int v (x, saved)) = int_or x (Some v)"
  by (cases v) (simp_all add: int_or_def split: option.split)

lemma fst_store_float64: "fst (store_float64 pf v (x, saved)) = float64_or pf x (Some v)"
  by (cases v) (simp_all add: float64_or_def split: option.split)

lemma snd_store_string: "typed_string (Some v) \<Longrightarrow> snd (store_string v (x, saved)) = saved"
  by (cases v) (simp_all add: typed_string_def)

lemma snd_store_bool: "typed_bool (Some v) \<Longrightarrow> snd (store_bool v (x, saved)) = saved"
  by (cases v) (simp_all add: typed_bool_def)

lemma snd_store_int: "typed_int (Some v) \<Longrightarrow> snd (store_int v (x, saved)) = saved"
  by (cases v) (auto simp add: typed_int_def)

lemma snd_store_float64:
  "typed_float64 pf (Some v) \<Longrightarrow> snd (store_float64 pf v (x, saved)) = saved"
  by (cases v) (auto simp add: typed_float64_def)

lemma or_None [simp]:
  "string_or s None = s" "bool_or b None = b" "int_or i None = i" "float64_or pf x None = x"
  by (simp_all add: string_or_def bool_or_def int_or_def float64_or_def)

lemma member_Number_fst:
  "fst (member_Number key v (n, saved)) =
     (if equalFold key ''Length'' then n\<lparr>Length := int_or (Length n) (Some v)\<rparr>
      else if equalFold key ''Luhn'' then n\<lparr>Luhn := bool_or (Luhn n) (Some v)\<rparr>
      else n)"
  using fst_store_int [of v "Length n" saved] fst_store_bool [of v "Luhn n" saved]
  by (auto simp add: member_Number_def split: prod.splits)

lemma object_Number_fill:
  "unique_names kvs \<Longrightarrow> fst (object_Number kvs (n, saved)) = fill_Number n kvs"
proof (induction kvs arbitrary: n saved)
  case Nil
  then show ?case by (simp add: fill_Number_def)
next
  case (Cons kv kvs)
  obtain key v where kv: "kv = (key, v)" by (cases kv)
  obtain n' saved' where m: "member_Number key v (n, saved) = (n', saved')"
    by (cases "member_Number key v (n, saved)")
  have u: "unique_names kvs" using Cons.prems kv by (simp add: unique_names_Cons)
  have n': "n' = fst (member_Number key v (n, saved))" using m by simp
  have "fst (object_Number (kv # kvs) (n, saved)) = fill_Number n' kvs"
    using Cons.IH [OF u, of n' saved'] kv m by simp
  also have "\<dots> = fill_Number n (kv # kvs)"
    using member_of_unique [of key v kvs] Cons.prems
    unfolding kv n' member_Number_fst fill_Number_def
    by (auto simp add: equalFold_def folded_names simp del: foldName.simps)
  finally show ?case .
qed


lemma typed_None [simp]:
  "typed_string None" "typed_bool None" "typed_int None" "typed_float64 pf None" "typed_object None"
  by (simp_all add: typed_string_def typed_bool_def typed_int_def typed_float64_def typed_object_def)

lemma member_Number_snd:
  assumes "equalFold key ''Length'' \<Longrightarrow> typed_int (Some v)"
    and "equalFold key ''Luhn'' \<Longrightarrow> typed_bool (Some v)"
  shows "snd (member_Number key v (n, saved)) = saved"
  using assms snd_store_int [of v "Length n" saved] snd_store_bool [of v "Luhn n" saved]
  by (auto simp add: member_Number_def split: prod.splits)

lemma expected_Number_Cons:
  assumes "expected_Number ((key, v) # kvs)"
  shows "expected_Number kvs"
    and "equalFold key ''Length'' \<Longrightarrow> typed_int (Some v)"
    and "equalFold key ''Luhn'' \<Longrightarrow> typed_bool (Some v)"
  using assms member_of_unique [of key v kvs]
  by (auto simp add: expected_Number_def unique_names_Cons split: if_splits)

lemma object_Number_saved:
  "expected_Number kvs \<Longrightarrow> snd (object_Number kvs (n, saved)) = saved"
proof (induction kvs arbitrary: n saved)
  case Nil
  then show ?case by simp
next
  case (Cons kv kvs)
  obtain key v where kv: "kv = (key, v)" by (cases kv)
  note e = expected_Number_Cons [OF Cons.prems [unfolded kv]]
  obtain n' saved' where m: "member_Number key v (n, saved) = (n', saved')"
    by (cases "member_Number key v (n, saved)")
  have "saved' = saved"
    using member_Number_snd [of key v n saved] e(2,3) m by simp
  then show ?case
    using Cons.IH [OF e(1), of n' saved'] kv m by simp
qed


lemma member_Country_fst:
  "fst (member_Country pf key v (c, saved)) =
     (if equalFold key ''Numeric'' then c\<lparr>Numeric := string_or (Numeric c) (Some v)\<rparr>
      else if equalFold key ''Name'' then c\<lparr>Country.Name := string_or (Country.Name c) (Some v)\<rparr>
      else if equalFold key ''Emoji'' then c\<lparr>Emoji := string_or (Emoji c) (Some v)\<rparr>
      else if equalFold key ''Currency'' then c\<lparr>Currency := string_or (Currency c) (Some v)\<rparr>
      else if equalFold key ''alpha2'' then c\<lparr>Short := string_or (Short c) (Some v)\<rparr>
      else if equalFold key ''latitude'' then c\<lparr>Lat := float64_or pf (Lat c) (Some v)\<rparr>
      else if equalFold key ''longitude'' then c\<lparr>Long := float64_or pf (Long c) (Some v)\<rparr>
      else c)"
  using fst_store_string [of v "Numeric c" saved] fst_store_string [of v "Country.Name c" saved]
    fst_store_string [of v "Emoji c" saved] fst_store_string [of v "Currency c" saved]
    fst_store_string [of v "Short c" saved] fst_store_float64 [of pf v "Lat c" saved]
    fst_store_float64 [of pf v "Long c" saved]
  by (simp add: member_Country_def case_prod_beta)

lemma object_Country_fill:
  "unique_names kvs \<Longrightarrow> fst (object_Country pf kvs (c, saved)) = fill_Country pf c kvs"
proof (induction kvs arbitrary: c saved)
  case Nil
  then show ?case by (simp add: fill_Country_def)
next
  case (Cons kv kvs)
  obtain key v where kv: "kv = (key, v)" by (cases kv)
  obtain c' saved' where m: "member_Country pf key v (c, saved) = (c', saved')"
    by (cases "member_Country pf key v (c, saved)")
  have u: "unique_names kvs" using Cons.prems kv by (simp add: unique_names_Cons)
  have c': "c' = fst (member_Country pf key v (c, saved))" using m by simp
  have "fst (object_Country pf (kv # kvs) (c, saved)) = fill_Country pf c' kvs"
    using Cons.IH [OF u, of c' saved'] kv m by simp
  also have "\<dots> = fill_Country pf c (kv # kvs)"
    using member_of_unique [of key v kvs] Cons.prems
    unfolding kv c' member_Country_fst fill_Country_def
    by (auto simp add: equalFold_def folded_names simp del: foldName.simps)
  finally show ?case .
qed

lemma member_Country_snd:
  assumes "equalFold key ''Numeric'' \<Longrightarrow> typed_string (Some v)"
    and "equalFold key ''Name'' \<Longrightarrow> typed_string (Some v)"
    and "equalFold key ''Emoji'' \<Longrightarrow> typed_string (Some v)"
    and "equalFold key ''Currency'' \<Longrightarrow> typed_string (Some v)"
    and "equalFold key ''alpha2'' \<Longrightarrow> typed_string (Some v)"
    and "equalFold key ''latitude'' \<Longrightarrow> typed_float64 pf (Some v)"
    and "equalFold key ''longitude'' \<Longrightarrow> typed_float64 pf (Some v)"
  shows "snd (member_Country pf key v (c, saved)) = saved"
  using assms
  by (simp add: member_Country_def case_prod_beta snd_store_string snd_store_float64)

lemma expected_Country_Cons:
  assumes "expected_Country pf ((key, v) # kvs)"
  shows "expected_Country pf kvs"
    and "equalFold key ''Numeric'' \<Longrightarrow> typed_string (Some v)"
    and "equalFold key ''Name'' \<Longrightarrow> typed_string (Some v)"
    and "equalFold key ''Emoji'' \<Longrightarrow> typed_string (Some v)"
    and "equalFold key ''Currency'' \<Longrightarrow> typed_string (Some v)"
    and "equalFold key ''alpha2'' \<Longrightarrow> typed_string (Some v)"
    and "equalFold key ''latitude'' \<Longrightarrow> typed_float64 pf (Some v)"
    and "equalFold key ''longitude'' \<Longrightarrow> typed_float64 pf (Some v)"
  using assms member_of_unique [of key v kvs]
  by (auto simp add: expected_Country_def unique_names_Cons equalFold_def folded_names
      simp del: foldName.simps split: if_splits)

lemma object_Country_saved:
  "expected_Country pf kvs \<Longrightarrow> snd (object_Country pf kvs (c, saved)) = saved"
proof (induction kvs arbitrary: c saved)
  case Nil
  then show ?case by simp
next
  case (Cons kv kvs)
  obtain key v where kv: "kv = (key, v)" by (cases kv)
  note e = expected_Country_Cons [OF Cons.prems [unfolded kv]]
  obtain c' saved' where m: "member_Country pf key v (c, saved) = (c', saved')"
    by (cases "member_Country pf key v (c, saved)")
  have "saved' = saved"
    using member_Country_snd [of key v pf c saved] e(2-8) m by simp
  then show ?case
    using Cons.IH [OF e(1), of c' saved'] kv m by simp
qed


lemma member_Bank_fst:
  "fst (member_Bank key v (k, saved)) =
     (if equalFold key ''Name'' then k\<lparr>Bank.Name := string_or (Bank.Name k) (Some v)\<rparr>
      else if equalFold key ''URL'' then k\<lparr>URL := string_or (URL k) (Some v)\<rparr>
      else if equalFold key ''Phone'' then k\<lparr>Phone := string_or (Phone k) (Some v)\<rparr>
      else if equalFold key ''City'' then k\<lparr>City := string_or (City k) (Some v)\<rparr>
      else k)"
  by (simp add: member_Bank_def case_prod_beta fst_store_string)

lemma object_Bank_fill:
  "unique_names kvs \<Longrightarrow> fst (object_Bank kvs (k, saved)) = fill_Bank k kvs"
proof (induction kvs arbitrary: k saved)
  case Nil
  then show ?case by (simp add: fill_Bank_def)
next
  case (Cons kv kvs)
  obtain key v where kv: "kv = (key, v)" by (cases kv)
  obtain k' saved' where m: "member_Bank key v (k, saved) = (k', saved')"
    by (cases "member_Bank key v (k, saved)")
  have u: "unique_names kvs" using Cons.prems kv by (simp add: unique_names_Cons)
  have k': "k' = fst (member_Bank key v (k, saved))" using m by simp
  have "fst (object_Bank (kv # kvs) (k, saved)) = fill_Bank k' kvs"
    using Cons.IH [OF u, of k' saved'] kv m by simp
  also have "\<dots> = fill_Bank k (kv # kvs)"
    using member_of_unique [of key v kvs] Cons.prems
    unfolding kv k' member_Bank_fst fill_Bank_def
    by (auto simp add: equalFold_def folded_names simp del: foldName.simps)
  finally show ?case .
qed

lemma member_Bank_snd:
  assumes "equalFold key ''Name'' \<Longrightarrow> typed_string (Some v)"
    and "equalFold key ''URL'' \<Longrightarrow> typed_string (Some v)"
    and "equalFold key ''Phone'' \<Longrightarrow> typed_string (Some v)"
    and "equalFold key ''City'' \<Longrightarrow> typed_string (Some v)"
  shows "snd (member_Bank key v (k, saved)) = saved"
  using assms by (simp add: member_Bank_def case_prod_beta snd_store_string)

lemma expected_Bank_Cons:
  assumes "expected_Bank ((key, v) # kvs)"
  shows "expected_Bank kvs"
    and "equalFold key ''Name'' \<Longrightarrow> typed_string (Some v)"
    and "equalFold key ''URL'' \<Longrightarrow> typed_string (Some v)"
    and "equalFold key ''Phone'' \<Longrightarrow> typed_string (Some v)"
    and "equalFold key ''City'' \<Longrightarrow> typed_string (Some v)"
  using assms member_of_unique [of key v kvs]
  by (auto simp add: expected_Bank_def unique_names_Cons equalFold_def folded_names
      simp del: foldName.simps split: if_splits)

lemma object_Bank_saved:
  "expected_Bank kvs \<Longrightarrow> snd (object_Bank kvs (k, saved)) = saved"
proof (induction kvs arbitrary: k saved)
  case Nil
  then show ?case by simp
next
  case (Cons kv kvs)
  obtain key v where kv: "kv = (key, v)" by (cases kv)
  note e = expected_Bank_Cons [OF Cons.prems [unfolded kv]]
  obtain k' saved' where m: "member_Bank key v (k, saved) = (k', saved')"
    by (cases "member_Bank key v (k, saved)")
  have "saved' = saved"
    using member_Bank_snd [of key v k saved] e(2-5) m by simp
  then show ?case
    using Cons.IH [OF e(1), of k' saved'] kv m by simp
qed

lemma members_simps [simp]:
  "members None = []" "members (Some (JObject kvs)) = kvs" "members (Some JNull) = []"
  "members (Some (JBool b)) = []" "members (Some (JNumber lit)) = []"
  "members (Some (JString s)) = []" "members (Some (JArray xs)) = []"
  by (simp_all add: members_def)

lemma fill_Nil [simp]:
  "fill_Number n [] = n" "fill_Country pf c [] = c" "fill_Bank k [] = k"
  by (simp_all add: fill_Number_def fill_Country_def fill_Bank_def)

lemma fst_store_Number:
  "unique_names (members (Some v)) \<Longrightarrow>
     fst (store_Number v (n, saved)) = fill_Number n (members (Some v))"
  by (cases v) (simp_all add: object_Number_fill)

lemma fst_store_Country:
  "unique_names (members (Some v)) \<Longrightarrow>
     fst (store_Country pf v (c, saved)) = fill_Country pf c (members (Some v))"
  by (cases v) (simp_all add: object_Country_fill)

lemma fst_store_Bank:
  "unique_names (members (Some v)) \<Longrightarrow>
     fst (store_Bank v (k, saved)) = fill_Bank k (members (Some v))"
  by (cases v) (simp_all add: object_Bank_fill)

lemma snd_store_Number:
  "typed_object (Some v) \<Longrightarrow> expected_Number (members (Some v)) \<Longrightarrow>
     snd (store_Number v (n, saved)) = saved"
  by (cases v) (simp_all add: object_Number_saved typed_object_def)

lemma snd_store_Country:
  "typed_object (Some v) \<Longrightarrow> expected_Country pf (members (Some v)) \<Longrightarrow>
     snd (store_Country pf v (c, saved)) = saved"
  by (cases v) (simp_all add: object_Country_saved typed_object_def)

lemma snd_store_Bank:
  "typed_object (Some v) \<Longrightarrow> expected_Bank (members (Some v)) \<Longrightarrow>
     snd (store_Bank v (k, saved)) = saved"
  by (cases v) (simp_all add: object_Bank_saved typed_object_def)


lemma expected_Nil [simp]:
  "unique_names []" "expected_Number []" "expected_Country pf []" "expected_Bank []"
  by (simp_all add: unique_names_def expected_Number_def expected_Country_def expected_Bank_def)

lemma expected_unique:
  "expected_Number kvs \<Longrightarrow> unique_names kvs"
  "expected_Country pf kvs \<Longrightarrow> unique_names kvs"
  "expected_Bank kvs \<Longrightarrow> unique_names kvs"
  by (simp_all add: expected_Number_def expected_Country_def expected_Bank_def)

lemma member_BIN_fst:
  "fst (member_BIN pf key v (b, saved)) =
     (if equalFold key ''Number'' then b\<lparr>Number := fst (store_Number v (Number b, saved))\<rparr>
      else if equalFold key ''Scheme'' then b\<lparr>Scheme := string_or (Scheme b) (Some v)\<rparr>
      else if equalFold key ''Type'' then b\<lparr>Type := string_or (Type b) (Some v)\<rparr>
      else if equalFold key ''Brand'' then b\<lparr>Brand := string_or (Brand b) (Some v)\<rparr>
      else if equalFold key ''Prepaid'' then b\<lparr>Prepaid := bool_or (Prepaid b) (Some v)\<rparr>
      else if equalFold key ''Country'' then b\<lparr>Country := fst (store_Country pf v (Country b, saved))\<rparr>
      else if equalFold key ''Bank'' then b\<lparr>Bank := fst (store_Bank v (Bank b, saved))\<rparr>
      else b)"
  by (simp add: member_BIN_def case_prod_beta fst_store_string fst_store_bool)

lemma expected_BIN_Cons:
  assumes "expected_BIN pf ((key, v) # kvs)"
  shows "expected_BIN pf kvs"
    and "equalFold key ''Number'' \<Longrightarrow> typed_object (Some v) \<and> expected_Number (members (Some v))"
    and "equalFold key ''Scheme'' \<Longrightarrow> typed_string (Some v)"
    and "equalFold key ''Type'' \<Longrightarrow> typed_string (Some v)"
    and "equalFold key ''Brand'' \<Longrightarrow> typed_string (Some v)"
    and "equalFold key ''Prepaid'' \<Longrightarrow> typed_bool (Some v)"
    and "equalFold key ''Country'' \<Longrightarrow> typed_object (Some v) \<and> expected_Country pf (members (Some v))"
    and "equalFold key ''Bank'' \<Longrightarrow> typed_object (Some v) \<and> expected_Bank (members (Some v))"
  using assms member_of_unique [of key v kvs]
  by (auto simp add: expected_BIN_def unique_names_Cons equalFold_def folded_names
      simp del: foldName.simps split: if_splits)

lemma member_BIN_snd:
  assumes "equalFold key ''Number'' \<Longrightarrow> typed_object (Some v) \<and> expected_Number (members (Some v))"
    and "equalFold key ''Scheme'' \<Longrightarrow> typed_string (Some v)"
    and "equalFold key ''Type'' \<Longrightarrow> typed_string (Some v)"
    and "equalFold key ''Brand'' \<Longrightarrow> typed_string (Some v)"
    and "equalFold key ''Prepaid'' \<Longrightarrow> typed_bool (Some v)"
    and "equalFold key ''Country'' \<Longrightarrow> typed_object (Some v) \<and> expected_Country pf (members (Some v))"
    and "equalFold key ''Bank'' \<Longrightarrow> typed_object (Some v) \<and> expected_Bank (members (Some v))"
  shows "snd (member_BIN pf key v (b, saved)) = saved"
  using assms
  by (simp add: member_BIN_def case_prod_beta snd_store_string snd_store_bool
      snd_store_Number snd_store_Country snd_store_Bank)

lemma object_BIN_saved:
  "expected_BIN pf kvs \<Longrightarrow> snd (object_BIN pf kvs (b, saved)) = saved"
proof (induction kvs arbitrary: b saved)
  case Nil
  then show ?case by simp
next
  case (Cons kv kvs)
  obtain key v where kv: "kv = (key, v)" by (cases kv)
  note e = expected_BIN_Cons [OF Cons.prems [unfolded kv]]
  obtain b' saved' where m: "member_BIN pf key v (b, saved) = (b', saved')"
    by (cases "member_BIN pf key v (b, saved)")
  have "saved' = saved"
    using member_BIN_snd [of key v pf b saved] e(2-8) m by simp
  then show ?case
    using Cons.IH [OF e(1), of b' saved'] kv m by simp
qed

lemma object_BIN_fill:
  "expected_BIN pf kvs \<Longrightarrow> fst (object_BIN pf kvs (b, saved)) = fill_BIN pf b kvs"
proof (induction kvs arbitrary: b saved)
  case Nil
  then show ?case by (simp add: fill_BIN_def)
next
  case (Cons kv kvs)
  obtain key v where kv: "kv = (key, v)" by (cases kv)
  note e = expected_BIN_Cons [OF Cons.prems [unfolded kv]]
  obtain b' saved' where m: "member_BIN pf key v (b, saved) = (b', saved')"
    by (cases "member_BIN pf key v (b, saved)")
  have u: "unique_names ((key, v) # kvs)"
    using Cons.prems kv by (simp add: expected_BIN_def)
  have b': "b' = fst (member_BIN pf key v (b, saved))" using m by simp
  have "fst (object_BIN pf (kv # kvs) (b, saved)) = fill_BIN pf b' kvs"
    using Cons.IH [OF e(1), of b' saved'] kv m by simp
  also have "\<dots> = fill_BIN pf b (kv # kvs)"
    using member_of_unique [OF u] e(2-8)
    unfolding kv b' member_BIN_fst fill_BIN_def
    by (auto simp add: equalFold_def folded_names fst_store_Number fst_store_Country
        fst_store_Bank expected_unique simp del: foldName.simps)
  finally show ?case .
qed

lemma unmarshal_BIN_expected:
  "expected_BIN pf kvs \<Longrightarrow> unmarshal_BIN pf (JObject kvs) None = (Some (direct_BIN pf kvs), None)"
  using object_BIN_fill [of pf kvs zero_BIN None] object_BIN_saved [of pf kvs zero_BIN None]
  by (simp add: direct_BIN_def alloc_BIN_def case_prod_beta)

section \<open>The claims\<close>

text \<open>
  C1. A string that does not have the format (first character a digit 1 to 9, then 3 to
  15 further digits, nothing else) makes \<^verbatim>\<open>Search\<close> fail at once: the error is the
  validation error, whose message describes the format, and the state is the one the
  call started in, so that the client was not called and the world beyond is untouched.
\<close>

theorem Search_rejects_malformed_bin:
  assumes "\<not> bin_format s"
  shows "\<exists>err. fst (Search env s st) = (None, Some err)
           \<and> failure_of err = Some ValidationFailure
           \<and> Error env err = validation_message
           \<and> snd (Search env s st) = st"
  using assms by (simp add: Search_invalid)

theorem Search_rejects_malformed_bin_witness:
  "\<not> bin_format ''0812436''
   \<and> (\<exists>err. fst (Search mock_env ''0812436'' (init_state 0)) = (None, Some err)
           \<and> failure_of err = Some ValidationFailure
           \<and> Error mock_env err = validation_message
           \<and> snd (Search mock_env ''0812436'' (init_state 0)) = init_state 0)"
proof -
  have h: "\<not> bin_format ''0812436''"
    by (simp add: bin_format_def in_range_def)
  show ?thesis
    using h Search_rejects_malformed_bin [OF h, of mock_env "init_state 0"] by simp
qed

text \<open>
  C2. When the response has a status code other than 200, \<^verbatim>\<open>Search\<close> fails with an
  error whose cause is the \<^verbatim>\<open>StatusCodeError\<close> of exactly that code, a value the caller
  reads from the error with \<^verbatim>\<open>errors.Cause\<close>, and whose message is the wrapper's text
  followed by the code in decimal, a space and the reason phrase of the code.
\<close>

theorem Search_status_code_error:
  assumes "bin_format bin"
    and "Client_Get env (Client st) (lookup_url bin) (world st) = (Inr resp, w)"
    and "StatusCode resp \<noteq> 200"
  shows "\<exists>err. fst (Search env bin st) = (None, Some err)
           \<and> Cause err = StatusCodeError (StatusCode resp)
           \<and> failure_of err = Some (StatusFailure (StatusCode resp))
           \<and> Error env err =
               ''Failed Due to Status Code Error: '' @ Sprintf_d (StatusCode resp) @ '' ''
                 @ StatusText env (StatusCode resp)"
  using assms by (simp add: Search_not_OK StatusCodeError_Error_def)

theorem Search_status_code_error_witness:
  "\<exists>err. fst (Search mock_env ''5288230'' (init_state 0)) = (None, Some err)
         \<and> Cause err = StatusCodeError 429
         \<and> failure_of err = Some (StatusFailure 429)
         \<and> Error mock_env err = ''Failed Due to Status Code Error: 429 Too Many Requests''"
proof -
  have h1: "bin_format ''5288230''"
    by (simp add: bin_format_def in_range_def)
  have h2: "Client_Get mock_env (Client (init_state 0)) (lookup_url ''5288230'') (world (init_state 0))
              = (Inr \<lparr>StatusCode = 429, Body = ''''\<rparr>, 1)"
    by (simp add: mock_env_def mock_Get_def lookup_url_def init_state_def)
  have h3: "StatusCode \<lparr>StatusCode = 429, Body = ''''\<rparr> \<noteq> 200"
    by simp
  have h4: "Sprintf_d 429 = ''429''"
    by (simp add: Sprintf_d_def decimal.simps char_of_literal)
  have h5: "StatusText mock_env 429 = ''Too Many Requests''"
    by (simp add: mock_env_def mock_StatusText_def)
  show ?thesis
    using Search_status_code_error [OF h1 h2 h3] h4 h5 by simp
qed

text \<open>
  C3. When the response has status 200 and its body holds a JSON object of the expected
  shape, \<^verbatim>\<open>Search\<close> succeeds, and the record it returns is the direct mapping of that
  object: each field is the value of the member of its name, converted to the field's
  type and nothing more, and the zero value when the member is absent or null.
\<close>

theorem Search_returns_direct_mapping:
  assumes "bin_format bin"
    and "Client_Get env (Client st) (lookup_url bin) (world st) = (Inr resp, w)"
    and "StatusCode resp = 200"
    and "readValue env (Body resp) = Inr (JObject kvs)"
    and "expected_BIN (ParseFloat env) kvs"
  shows "fst (Search env bin st) = (Some (direct_BIN (ParseFloat env) kvs), None)"
  using assms by (simp add: Search_OK Decode_def unmarshal_BIN_expected del: unmarshal_BIN.simps)

theorem Search_returns_direct_mapping_witness:
  "expected_BIN ParseInt mock_members
   \<and> fst (Search mock_env ''5288230'' (init_state 1)) = (Some mock_BIN, None)"
proof -
  have h1: "bin_format ''5288230''"
    by (simp add: bin_format_def in_range_def)
  have h2: "Client_Get mock_env (Client (init_state 1)) (lookup_url ''5288230'') (world (init_state 1))
              = (Inr \<lparr>StatusCode = 200, Body = mock_body\<rparr>, 2)"
    by (simp add: mock_env_def mock_Get_def lookup_url_def init_state_def)
  have h3: "StatusCode \<lparr>StatusCode = 200, Body = mock_body\<rparr> = 200"
    by simp
  have h4: "readValue mock_env (Body \<lparr>StatusCode = 200, Body = mock_body\<rparr>) = Inr (JObject mock_members)"
    by (simp add: mock_env_def mock_readValue_def)
  have h5: "expected_BIN (ParseFloat mock_env) mock_members"
    by (simp add: mock_env_def mock_members_def expected_BIN_def expected_Number_def
        expected_Country_def expected_Bank_def unique_names_def equalFold_def upper_def
        in_range_def char_of_literal typed_string_def typed_bool_def typed_int_def
        typed_float64_def typed_object_def ParseInt_def digits_val_def)
  have h6: "direct_BIN (ParseFloat mock_env) mock_members = mock_BIN"
    by (simp add: mock_env_def mock_members_def mock_BIN_def direct_BIN_def fill_BIN_def
        fill_Number_def fill_Country_def fill_Bank_def zero_BIN_def zero_Number_def
        zero_Country_def zero_Bank_def equalFold_def upper_def in_range_def char_of_literal
        string_or_def bool_or_def int_or_def float64_or_def ParseInt_def digits_val_def)
  show ?thesis
    using Search_returns_direct_mapping [OF h1 h2 h3 h4 h5] h5 h6
    by (simp add: mock_env_def)
qed



text \<open>
  C5. The error \<^verbatim>\<open>Search\<close> returns tells the caller which failure occurred: the kind
  read off the error's cause is the kind of failure the call met (a malformed BIN, a
  failed \<^verbatim>\<open>Get\<close>, a status other than 200 together with its code, a failed decoding),
  and there is no error exactly when there was no failure.
\<close>

theorem Search_error_tells_failure:
  "map_option failure_of (snd (fst (Search env bin st))) = map_option Some (outcome env bin st)"
  by (auto simp add: Search_result outcome_def split: sum.split)

theorem Search_error_tells_failure_witness:
  "map_option failure_of (snd (fst (Search mock_env ''9999'' (init_state 0))))
     = Some (Some TransportFailure)
   \<and> outcome mock_env ''9999'' (init_state 0) = Some TransportFailure"
proof -
  have h: "outcome mock_env ''9999'' (init_state 0) = Some TransportFailure"
    by (simp add: outcome_def bin_format_def in_range_def mock_env_def mock_Get_def
        lookup_url_def init_state_def)
  show ?thesis
    using Search_error_tells_failure [of mock_env "''9999''" "init_state 0"] h by simp
qed



text \<open>
  C7. When the response has status 200 and the JSON value in its body is \<^verbatim>\<open>null\<close>,
  \<^verbatim>\<open>Search\<close> returns a nil pointer and a nil error: a call can succeed without a
  record.
\<close>

theorem Search_null_body:
  assumes "bin_format bin"
    and "Client_Get env (Client st) (lookup_url bin) (world st) = (Inr resp, w)"
    and "StatusCode resp = 200"
    and "readValue env (Body resp) = Inr JNull"
  shows "fst (Search env bin st) = (None, None)"
  using assms by (simp add: Search_OK Decode_def)

theorem Search_null_body_witness:
  "readValue mock_env ''null'' = Inr JNull
   \<and> fst (Search mock_env ''4571'' (init_state 0)) = (None, None)"
proof -
  have h1: "bin_format ''4571''"
    by (simp add: bin_format_def in_range_def)
  have h2: "Client_Get mock_env (Client (init_state 0)) (lookup_url ''4571'') (world (init_state 0))
              = (Inr \<lparr>StatusCode = 200, Body = ''null''\<rparr>, 1)"
    by (simp add: mock_env_def mock_Get_def lookup_url_def init_state_def)
  have h3: "StatusCode \<lparr>StatusCode = 200, Body = ''null''\<rparr> = 200"
    by simp
  have h4: "readValue mock_env ''null'' = Inr JNull"
    by (simp add: mock_env_def mock_readValue_def mock_body_def)
  have h5: "readValue mock_env (Body \<lparr>StatusCode = 200, Body = ''null''\<rparr>) = Inr JNull"
    using h4 by simp
  show ?thesis
    using Search_null_body [OF h1 h2 h3 h5] h4 by simp
qed

text \<open>
  C8. Of two calls with the same BIN, one right after the other, the second returns what
  the first returned (the same record or the same error) whenever \<^verbatim>\<open>Client.Get\<close> answers
  the second as it answered the first. Nothing the first call leaves behind reaches the
  result of the second.
\<close>

theorem Search_twice_same_result:
  assumes "fst (Client_Get env (Client (snd (Search env bin st))) (lookup_url bin)
                  (world (snd (Search env bin st))))
             = fst (Client_Get env (Client st) (lookup_url bin) (world st))"
  shows "fst (Search env bin (snd (Search env bin st))) = fst (Search env bin st)"
  using assms
  by (simp add: Search_result [of env bin "snd (Search env bin st)"] Search_result [of env bin st])

theorem Search_twice_same_result_witness:
  "fst (Search mock_env ''5288230'' (snd (Search mock_env ''5288230'' (init_state 1))))
     = fst (Search mock_env ''5288230'' (init_state 1))
   \<and> fst (fst (Search mock_env ''5288230'' (init_state 1))) = Some mock_BIN"
proof -
  have h1: "bin_format ''5288230''"
    by (simp add: bin_format_def in_range_def)
  have h2: "Client_Get mock_env (Client (init_state 1)) (lookup_url ''5288230'') (world (init_state 1))
              = (Inr \<lparr>StatusCode = 200, Body = mock_body\<rparr>, 2)"
    by (simp add: mock_env_def mock_Get_def lookup_url_def init_state_def)
  have wd: "world (snd (Search mock_env ''5288230'' (init_state 1))) = 2"
    using Search_OK [OF h1 h2] by simp
  have cl: "Client (snd (Search mock_env ''5288230'' (init_state 1)))
              = Client (init_state 1 :: (unit, nat) state)"
    by (rule Search_Client)
  have h3: "fst (Client_Get mock_env (Client (snd (Search mock_env ''5288230'' (init_state 1))))
                   (lookup_url ''5288230'') (world (snd (Search mock_env ''5288230'' (init_state 1)))))
              = fst (Client_Get mock_env (Client (init_state 1)) (lookup_url ''5288230'')
                       (world (init_state 1)))"
    unfolding wd cl by (simp add: mock_env_def mock_Get_def lookup_url_def init_state_def)
  have d: "direct_BIN (ParseFloat mock_env) mock_members = mock_BIN"
    by (simp add: mock_env_def mock_members_def mock_BIN_def direct_BIN_def fill_BIN_def
        fill_Number_def fill_Country_def fill_Bank_def zero_BIN_def zero_Number_def
        zero_Country_def zero_Bank_def equalFold_def upper_def in_range_def char_of_literal
        string_or_def bool_or_def int_or_def float64_or_def ParseInt_def digits_val_def)
  have e: "expected_BIN (ParseFloat mock_env) mock_members"
    by (simp add: mock_env_def mock_members_def expected_BIN_def expected_Number_def
        expected_Country_def expected_Bank_def unique_names_def equalFold_def upper_def
        in_range_def char_of_literal typed_string_def typed_bool_def typed_int_def
        typed_float64_def typed_object_def ParseInt_def digits_val_def)
  have r: "readValue mock_env mock_body = Inr (JObject mock_members)"
    by (simp add: mock_env_def mock_readValue_def)
  have u: "unmarshal_BIN (ParseFloat mock_env) (JObject mock_members) None
             = (Some mock_BIN, None :: unit json_error option)"
    using unmarshal_BIN_expected [OF e] d by simp
  have f: "fst (fst (Search mock_env ''5288230'' (init_state 1))) = Some mock_BIN"
    using Search_OK [OF h1 h2] r u
    by (simp add: Decode_def del: unmarshal_BIN.simps)
  show ?thesis
    using Search_twice_same_result [OF h3] f by simp
qed

text \<open>
  C9. The request of a call with a well-formed BIN is a \<^verbatim>\<open>Get\<close> of the URL that consists
  of \<^verbatim>\<open>https://lookup.binlist.net/\<close> and the BIN as it was given; the call adds no other
  request to those made before.
\<close>

theorem Search_request_url:
  assumes "bin_format bin"
  shows "filter is_Get (calls (snd (Search env bin st))) =
           filter is_Get (calls st) @ [Get (Client st) (''https://lookup.binlist.net/'' @ bin)]"
  using assms by (simp add: Search_calls lookup_url_def split: sum.split)

theorem Search_request_url_witness:
  "bin_format ''5288230''
   \<and> filter is_Get (calls (snd (Search mock_env ''5288230'' (init_state 0)))) =
       [Get default_Client ''https://lookup.binlist.net/5288230'']"
proof -
  have h: "bin_format ''5288230''"
    by (simp add: bin_format_def in_range_def)
  show ?thesis
    using h Search_request_url [OF h, of mock_env "init_state 0"]
    by (simp add: init_state_def)
qed

text \<open>
  C10. The client \<^verbatim>\<open>Search\<close> sends its request through is the one held by the package
  variable \<^verbatim>\<open>Client\<close> at the time of the call: any client the caller has put there
  is the receiver of the \<^verbatim>\<open>Get\<close>, and \<^verbatim>\<open>Search\<close> itself never replaces it. The client
  the variable holds at the start has a timeout of 10 seconds, that is
  10 000 000 000 nanoseconds.
\<close>

theorem Client_overridable_default_timeout:
  "Timeout (Client (init_state w)) = 10 * Second \<and> Second = 1000000000
   \<and> Client (snd (Search env bin st)) = Client st
   \<and> (bin_format bin \<longrightarrow>
        calls (snd (Search env bin (st\<lparr>Client := c\<rparr>))) ! length (calls st)
          = Get c (lookup_url bin))"
  by (simp add: init_state_def default_Client_def Second_def Search_Client Search_calls
      split: sum.split)

theorem Client_overridable_default_timeout_witness:
  "Timeout (Client (init_state (0::nat) :: (unit, nat) state)) = 10000000000
   \<and> bin_format ''5288230''
   \<and> calls (snd (Search mock_env ''5288230''
               ((init_state 0)\<lparr>Client := \<lparr>Transport = Some (), Timeout = 3 * Second\<rparr>\<rparr>))) ! 0
       = Get \<lparr>Transport = Some (), Timeout = 3 * Second\<rparr> ''https://lookup.binlist.net/5288230''"
proof -
  have h: "bin_format ''5288230''"
    by (simp add: bin_format_def in_range_def)
  show ?thesis
    using h Client_overridable_default_timeout
      [of "0::nat" mock_env "''5288230''" "init_state 0" "\<lparr>Transport = Some (), Timeout = 3 * Second\<rparr>",
       where ?'a = unit]
    by (simp add: init_state_def lookup_url_def)
qed

end
